theory Spec2Isabelle
  imports Complex_Main "HOL-Library.AList" "HOL-Library.Monad_Syntax"
begin

section \<open>The sprite animator and the desktop peep of InvasionRCT2.py\<close>

text \<open>
  The development embeds the classes \<^verbatim>\<open>SpriteInfo\<close>, \<^verbatim>\<open>SpriteFrame\<close>,
  \<^verbatim>\<open>SpriteAnimator\<close> and \<^verbatim>\<open>DesktopPeep\<close> of \<^verbatim>\<open>src/InvasionRCT2.py\<close>.

  \<^item> Python integers are \<open>int\<close>; Python floats (positions, velocities, the speed and the
    scale factor) are \<open>real\<close>: the properties below use only their order, sums of a
    position and a velocity, and comparisons with integers.
  \<^item> The wall clock \<^verbatim>\<open>int(time.time() * 1000)\<close> and the raw numbers drawn by the
    \<^verbatim>\<open>random\<close> module are inputs of each operation.
  \<^item> Exceptions that leave a method are values of \<open>py_error\<close>.
  \<^item> What opening and reading the metadata file gives, and the image files of the sprite
    directory, are inputs as well.
  \<^item> Three operations of Qt and of the Python runtime are parameters, the fields of the
    record \<open>runtime\<close>: \<^verbatim>\<open>QPixmap.scaled\<close>, the product of an integer and a float in
    double precision, and the order in which a set of integers is iterated.
  \<^item> A \<open>char\<close> of a string is a code point below 256.
\<close>

subsection \<open>Python built-ins\<close>

text \<open>\<open>OSError\<close> stands for the errors of \<^verbatim>\<open>open\<close> other than
  \<^verbatim>\<open>FileNotFoundError\<close> (\<^verbatim>\<open>PermissionError\<close>, \<^verbatim>\<open>IsADirectoryError\<close>, ...), and
  \<open>ReaderError\<close> for the errors of reading the rows (\<^verbatim>\<open>csv.Error\<close>,
  \<^verbatim>\<open>UnicodeDecodeError\<close>).\<close>

datatype py_error = ValueError | IndexError | OSError | ReaderError

text \<open>\<^verbatim>\<open>random.choice(seq)\<close>: \<^verbatim>\<open>IndexError\<close> on an empty sequence, otherwise the element
  at a random index below \<^verbatim>\<open>len(seq)\<close>; \<open>r\<close> is the raw random number.\<close>

definition random_choice :: "'a list \<Rightarrow> nat \<Rightarrow> py_error + 'a" where
  "random_choice seq r = (if seq = [] then Inl IndexError else Inr (seq ! (r mod length seq)))"

text \<open>\<^verbatim>\<open>random.choice([0, 1, 2, 3])\<close>, which cannot raise.\<close>

definition random_direction :: "nat \<Rightarrow> int" where
  "random_direction r = [0, 1, 2, 3] ! (r mod 4)"

text \<open>\<^verbatim>\<open>random.randint(a, b)\<close>: \<^verbatim>\<open>ValueError\<close> on an empty range, otherwise a random
  integer of \<open>[a, b]\<close>.\<close>

definition randint_value :: "int \<Rightarrow> int \<Rightarrow> nat \<Rightarrow> int" where
  "randint_value a b r = a + int (r mod nat (b - a + 1))"

definition randint :: "int \<Rightarrow> int \<Rightarrow> nat \<Rightarrow> py_error + int" where
  "randint a b r = (if b < a then Inl ValueError else Inr (randint_value a b r))"

text \<open>\<^verbatim>\<open>int(x)\<close> of a float: truncation towards zero.\<close>

definition py_trunc :: "real \<Rightarrow> int" where
  "py_trunc v = (if 0 \<le> v then \<lfloor>v\<rfloor> else \<lceil>v\<rceil>)"

text \<open>\<^verbatim>\<open>max(xs or [0])\<close> of a list of integers.\<close>

definition max_or_zero :: "int list \<Rightarrow> int" where
  "max_or_zero xs = (case xs of [] \<Rightarrow> 0 | v # vs \<Rightarrow> fold max vs v)"

text \<open>\<^verbatim>\<open>str.strip()\<close> and \<^verbatim>\<open>int(str)\<close>: surrounding white space is dropped, one sign
  is allowed, the digits may be grouped by single underscores, and more than 4300 digits
  are refused (CPython's default limit). Below 256 the white space characters are 9 to
  13, 28 to 32, 133 and 160, and the decimal digits are \<open>0\<close> to \<open>9\<close>.\<close>

definition py_isspace :: "char \<Rightarrow> bool" where
  "py_isspace c =
     (let n = (of_char c :: nat)
      in (9 \<le> n \<and> n \<le> 13) \<or> (28 \<le> n \<and> n \<le> 32) \<or> n = 133 \<or> n = 160)"

definition strip :: "string \<Rightarrow> string" where
  "strip s = rev (dropWhile py_isspace (rev (dropWhile py_isspace s)))"

definition is_digit :: "char \<Rightarrow> bool" where
  "is_digit c = (48 \<le> (of_char c :: nat) \<and> (of_char c :: nat) \<le> 57)"

definition digit_val :: "char \<Rightarrow> int" where
  "digit_val c = int (of_char c) - 48"

text \<open>\<open>py_digits acc n cs\<close> reads the rest \<open>cs\<close> of a literal after \<open>n\<close> digits of value
  \<open>acc\<close>.\<close>

fun py_digits :: "int \<Rightarrow> int \<Rightarrow> string \<Rightarrow> int option" where
  "py_digits acc n [] = (if n \<le> 4300 then Some acc else None)"
| "py_digits acc n (c # cs) =
     (if is_digit c then py_digits (acc * 10 + digit_val c) (n + 1) cs
      else if c = CHR ''_'' then
        (case cs of [] \<Rightarrow> None | d # _ \<Rightarrow> if is_digit d then py_digits acc n cs else None)
      else None)"

definition py_unsigned :: "string \<Rightarrow> int option" where
  "py_unsigned s =
     (case s of [] \<Rightarrow> None | c # _ \<Rightarrow> if is_digit c then py_digits 0 0 s else None)"

definition py_int :: "string \<Rightarrow> int option" where
  "py_int s =
     (case strip s of
        [] \<Rightarrow> None
      | c # cs \<Rightarrow>
          if c = CHR ''-'' then map_option uminus (py_unsigned cs)
          else if c = CHR ''+'' then py_unsigned cs
          else py_unsigned (c # cs))"

subsection \<open>Data classes\<close>

record SpriteInfo =
  sheet_num :: int
  sprite_index :: int
  sprite_id :: int
  width :: int
  height :: int
  x_offset :: int
  y_offset :: int
  sheet_x :: int
  sheet_y :: int

text \<open>A \<^verbatim>\<open>QPixmap\<close>: its size and where its pixels come from.\<close>

datatype image =
    Sheet_file int
  | Cropped image int int
  | Yellow

record QPixmap =
  pm_width :: int
  pm_height :: int
  pm_image :: image

datatype SpriteFrame = SpriteFrame (pixmap: QPixmap)

text \<open>The operations taken from Qt and from the Python runtime:
  \<open>qt_scaled rt w h pm\<close> is \<^verbatim>\<open>pm.scaled(w, h, KeepAspectRatio, SmoothTransformation)\<close>,
  \<open>float_product rt n v\<close> is the double \<^verbatim>\<open>n * v\<close> of an integer \<open>n\<close> and a float \<open>v\<close>,
  and a set of integers is iterated by increasing \<open>set_rank rt\<close> (every order is the
  order of some rank).\<close>

record runtime =
  qt_scaled :: "int \<Rightarrow> int \<Rightarrow> QPixmap \<Rightarrow> QPixmap"
  float_product :: "int \<Rightarrow> real \<Rightarrow> real"
  set_rank :: "int \<Rightarrow> int"

record SpriteAnimator =
  direction_frames :: "int \<rightharpoonup> SpriteFrame list"
  current_direction :: int
  current_frame_index :: int
  frame_duration :: int
  last_frame_time :: int
  pos_x :: real
  pos_y :: real
  velocity_x :: real
  velocity_y :: real
  move_speed :: real
  is_moving :: bool
  next_direction_change_time :: int
  max_canvas_width :: int
  max_canvas_height :: int
  sprite_details :: "(int \<times> SpriteInfo) list"
  spritesheets :: "int \<rightharpoonup> QPixmap"
  scale_factor :: real

text \<open>\<^verbatim>\<open>SpriteAnimator.__init__\<close>. The dictionary \<open>sprite_details\<close> is an association
  list in insertion order.\<close>

definition no_frames :: "int \<rightharpoonup> SpriteFrame list" where
  "no_frames = [0 \<mapsto> [], 1 \<mapsto> [], 2 \<mapsto> [], 3 \<mapsto> []]"

definition SpriteAnimator_init :: "real \<Rightarrow> SpriteAnimator" where
  "SpriteAnimator_init scale =
     \<lparr> direction_frames = no_frames,
       current_direction = 0,
       current_frame_index = 0,
       frame_duration = 100,
       last_frame_time = 0,
       pos_x = 0,
       pos_y = 0,
       velocity_x = 0,
       velocity_y = 0,
       move_speed = 1,
       is_moving = False,
       next_direction_change_time = 0,
       max_canvas_width = 0,
       max_canvas_height = 0,
       sprite_details = [],
       spritesheets = Map.empty,
       scale_factor = scale \<rparr>"

subsection \<open>Movement\<close>

text \<open>\<^verbatim>\<open>set_direction\<close>: a direction outside \<open>0..3\<close> is stored and leaves the velocity as
  it was.\<close>

definition set_direction :: "SpriteAnimator \<Rightarrow> int \<Rightarrow> SpriteAnimator" where
  "set_direction s direction =
     (let s = s\<lparr>current_direction := direction\<rparr>;
          speed = move_speed s
      in if direction = 0 then s\<lparr>velocity_x := speed, velocity_y := - speed\<rparr>
         else if direction = 1 then s\<lparr>velocity_x := speed, velocity_y := speed\<rparr>
         else if direction = 2 then s\<lparr>velocity_x := - speed, velocity_y := speed\<rparr>
         else if direction = 3 then s\<lparr>velocity_x := - speed, velocity_y := - speed\<rparr>
         else s)"

text \<open>The inputs of \<^verbatim>\<open>setup_walking\<close>: the clock and the four random draws.\<close>

record setup_env =
  setup_now :: int
  rnd_x :: nat
  rnd_y :: nat
  rnd_start_dir :: nat
  rnd_start_delay :: nat

text \<open>The start coordinate of \<^verbatim>\<open>setup_walking\<close> on one axis:
  \<^verbatim>\<open>float(random.randint(0, screen - box)) if start is None else start\<close>.\<close>

definition start_coordinate :: "real option \<Rightarrow> int \<Rightarrow> nat \<Rightarrow> py_error + real" where
  "start_coordinate start hi r =
     (case start of
        None \<Rightarrow> (case randint 0 hi r of Inl err \<Rightarrow> Inl err | Inr v \<Rightarrow> Inr (real_of_int v))
      | Some v \<Rightarrow> Inr v)"

text \<open>\<^verbatim>\<open>setup_walking\<close>. A random start needs the bounding box to fit the screen:
  \<^verbatim>\<open>random.randint\<close> raises otherwise. The ranges \<open>0..3\<close> and \<open>1000..3000\<close> are
  never empty.\<close>

definition setup_walking ::
  "SpriteAnimator \<Rightarrow> int \<Rightarrow> int \<Rightarrow> real option \<Rightarrow> real option \<Rightarrow> setup_env
     \<Rightarrow> py_error + SpriteAnimator" where
  "setup_walking s screen_width screen_height start_x start_y e =
     (case start_coordinate start_x (screen_width - max_canvas_width s) (rnd_x e) of
        Inl err \<Rightarrow> Inl err
      | Inr px \<Rightarrow>
         (case start_coordinate start_y (screen_height - max_canvas_height s) (rnd_y e) of
            Inl err \<Rightarrow> Inl err
          | Inr py \<Rightarrow>
              Inr ((set_direction (s\<lparr>pos_x := px, pos_y := py\<rparr>)
                      (randint_value 0 3 (rnd_start_dir e)))
                    \<lparr>is_moving := True,
                     next_direction_change_time :=
                       setup_now e + randint_value 1000 3000 (rnd_start_delay e)\<rparr>)))"

text \<open>The inputs of one \<^verbatim>\<open>update\<close>: the clock and the random draws of the timed direction
  change, of its delay and of the bounce.\<close>

record tick =
  now :: int
  rnd_dir :: nat
  rnd_delay :: nat
  rnd_bounce :: nat

text \<open>\<^verbatim>\<open>self.direction_frames.get(self.current_direction, [])\<close>\<close>

definition frames_at :: "(int \<rightharpoonup> SpriteFrame list) \<Rightarrow> int \<Rightarrow> SpriteFrame list" where
  "frames_at m d = (case m d of None \<Rightarrow> [] | Some fs \<Rightarrow> fs)"

definition frames_of :: "SpriteAnimator \<Rightarrow> SpriteFrame list" where
  "frames_of s = frames_at (direction_frames s) (current_direction s)"

text \<open>The steps of \<^verbatim>\<open>update\<close>, in the order of the source: frame animation, random
  direction change, move, bounce, clamp. \<open>frame_due\<close> is the condition of the frame
  animation.\<close>

definition frame_due :: "int \<Rightarrow> SpriteAnimator \<Rightarrow> bool" where
  "frame_due current_time s =
     (frames_of s \<noteq> [] \<and> current_time - last_frame_time s \<ge> frame_duration s)"

definition advance_frame :: "int \<Rightarrow> SpriteAnimator \<Rightarrow> SpriteAnimator" where
  "advance_frame current_time s =
     (if frame_due current_time s
      then s\<lparr>current_frame_index :=
               (current_frame_index s + 1) mod int (length (frames_of s)),
             last_frame_time := current_time\<rparr>
      else s)"

definition change_direction :: "tick \<Rightarrow> SpriteAnimator \<Rightarrow> SpriteAnimator" where
  "change_direction t s =
     (if now t \<ge> next_direction_change_time s
      then (let new_dir = random_direction (rnd_dir t);
                s = (if new_dir \<noteq> current_direction s then set_direction s new_dir else s)
            in s\<lparr>next_direction_change_time := now t + randint_value 1000 3000 (rnd_delay t)\<rparr>)
      else s)"

definition move :: "SpriteAnimator \<Rightarrow> SpriteAnimator" where
  "move s = s\<lparr>pos_x := pos_x s + velocity_x s, pos_y := pos_y s + velocity_y s\<rparr>"

definition bounced :: "SpriteAnimator \<Rightarrow> int \<Rightarrow> int \<Rightarrow> bool" where
  "bounced s screen_width screen_height =
     ((pos_x s < 0 \<or> pos_x s > real_of_int (screen_width - max_canvas_width s)) \<or>
      (pos_y s < 0 \<or> pos_y s > real_of_int (screen_height - max_canvas_height s)))"

definition bounce :: "tick \<Rightarrow> int \<Rightarrow> int \<Rightarrow> SpriteAnimator \<Rightarrow> SpriteAnimator" where
  "bounce t screen_width screen_height s =
     (if bounced s screen_width screen_height
      then set_direction s (random_direction (rnd_bounce t)) else s)"

definition clamp :: "int \<Rightarrow> int \<Rightarrow> SpriteAnimator \<Rightarrow> SpriteAnimator" where
  "clamp screen_width screen_height s =
     s\<lparr>pos_x := max 0 (min (pos_x s) (real_of_int (screen_width - max_canvas_width s))),
       pos_y := max 0 (min (pos_y s) (real_of_int (screen_height - max_canvas_height s)))\<rparr>"

definition update :: "SpriteAnimator \<Rightarrow> int \<Rightarrow> int \<Rightarrow> tick \<Rightarrow> SpriteAnimator" where
  "update s screen_width screen_height t =
     (if \<not> is_moving s then s
      else clamp screen_width screen_height
             (bounce t screen_width screen_height
                (move (change_direction t (advance_frame (now t) s)))))"

text \<open>The timer calls \<^verbatim>\<open>update\<close> once per tick, with the same screen size.\<close>

definition updates :: "SpriteAnimator \<Rightarrow> int \<Rightarrow> int \<Rightarrow> tick list \<Rightarrow> SpriteAnimator" where
  "updates s screen_width screen_height ts =
     fold (\<lambda>t s. update s screen_width screen_height t) ts s"

text \<open>\<^verbatim>\<open>get_current_frame\<close>, with Python's list indexing: a negative index counts from
  the end, an index out of range raises.\<close>

definition py_index :: "'a list \<Rightarrow> int \<Rightarrow> py_error + 'a" where
  "py_index xs i =
     (if 0 \<le> i \<and> i < int (length xs) then Inr (xs ! nat i)
      else if i < 0 \<and> - int (length xs) \<le> i then Inr (xs ! nat (int (length xs) + i))
      else Inl IndexError)"

definition get_current_frame :: "SpriteAnimator \<Rightarrow> py_error + SpriteFrame option" where
  "get_current_frame s =
     (let frames = frames_of s
      in if frames = [] then Inr None
         else (case py_index frames (current_frame_index s) of
                 Inl err \<Rightarrow> Inl err
               | Inr f \<Rightarrow> Inr (Some f)))"

definition get_position :: "SpriteAnimator \<Rightarrow> real \<times> real" where
  "get_position s = (pos_x s, pos_y s)"

subsection \<open>Loading\<close>

text \<open>The try block of \<^verbatim>\<open>load_sprite_info\<close> up to the range check: the nine conversions
  \<^verbatim>\<open>int(row[k].strip())\<close>, \<open>None\<close> where one of them raises. Columns 3 and 8 are not
  read.\<close>

definition parse_fields :: "string list \<Rightarrow> SpriteInfo option" where
  "parse_fields row =
     do {
       v0 \<leftarrow> py_int (strip (row ! 0));
       v1 \<leftarrow> py_int (strip (row ! 1));
       v2 \<leftarrow> py_int (strip (row ! 2));
       v4 \<leftarrow> py_int (strip (row ! 4));
       v5 \<leftarrow> py_int (strip (row ! 5));
       v6 \<leftarrow> py_int (strip (row ! 6));
       v7 \<leftarrow> py_int (strip (row ! 7));
       v9 \<leftarrow> py_int (strip (row ! 9));
       v10 \<leftarrow> py_int (strip (row ! 10));
       Some \<lparr> sheet_num = v0, sprite_index = v1, sprite_id = v2, width = v4, height = v5,
              x_offset = v6, y_offset = v7, sheet_x = v9, sheet_y = v10 \<rparr>
     }"

text \<open>The body of the row loop. \<^verbatim>\<open>self.sprite_details[sprite_id] = ...\<close> replaces the
  entry of a known id and appends a new one.\<close>

definition load_row :: "string list \<Rightarrow> (int \<times> SpriteInfo) list \<Rightarrow> (int \<times> SpriteInfo) list" where
  "load_row row details =
     (if row = [] \<or> take 1 (row ! 0) = ''#'' then details
      else if length row \<ge> 11 then
        (case parse_fields row of
           None \<Rightarrow> details
         | Some info \<Rightarrow>
             if 0 < width info \<and> width info < 4096 \<and> 0 < height info \<and> height info < 4096
             then AList.update (sprite_id info) info details
             else details)
      else details)"

text \<open>What opening and reading the metadata file gives: \<^verbatim>\<open>open\<close> raises
  \<^verbatim>\<open>FileNotFoundError\<close>, or it raises another error, or the reader yields all the rows
  of the file, or it yields some rows and then raises.\<close>

datatype nfo_file =
    Not_found
  | Open_error
  | Rows "string list list"
  | Rows_then_error "string list list"

text \<open>\<^verbatim>\<open>load_sprite_info\<close>: only \<^verbatim>\<open>FileNotFoundError\<close> is caught; every other error of
  \<^verbatim>\<open>open\<close> or of the reader leaves the method.\<close>

definition load_sprite_info ::
  "SpriteAnimator \<Rightarrow> nfo_file \<Rightarrow> py_error + SpriteAnimator \<times> bool" where
  "load_sprite_info s nfo_file =
     (case nfo_file of
        Not_found \<Rightarrow> Inr (s, False)
      | Open_error \<Rightarrow> Inl OSError
      | Rows rows \<Rightarrow>
          (let s = s\<lparr>sprite_details := fold load_row rows (sprite_details s)\<rparr>
           in Inr (s, length (sprite_details s) > 0))
      | Rows_then_error rows \<Rightarrow> Inl ReaderError)"

text \<open>\<^verbatim>\<open>load_spritesheet\<close>: \<open>sheet_files n\<close> is the image of \<^verbatim>\<open>sprite_n.png\<close>, \<open>None\<close> where
  \<^verbatim>\<open>QPixmap(filename).isNull()\<close>, that is where the file is missing or unreadable. The
  loop visits the set of sheet numbers in the order of the runtime and stops at the first
  such sheet.\<close>

fun load_sheets ::
  "(int \<Rightarrow> QPixmap option) \<Rightarrow> int list \<Rightarrow> (int \<rightharpoonup> QPixmap) \<Rightarrow> (int \<rightharpoonup> QPixmap) \<times> bool" where
  "load_sheets sheet_files [] sheets = (sheets, True)"
| "load_sheets sheet_files (n # ns) sheets =
     (case sheet_files n of
        None \<Rightarrow> (sheets, False)
      | Some pm \<Rightarrow> load_sheets sheet_files ns (sheets(n \<mapsto> pm)))"

definition sheet_numbers :: "runtime \<Rightarrow> SpriteAnimator \<Rightarrow> int list" where
  "sheet_numbers rt s =
     sort_key (set_rank rt) (remdups (map (\<lambda>(k, info). sheet_num info) (sprite_details s)))"

definition load_spritesheet ::
  "runtime \<Rightarrow> SpriteAnimator \<Rightarrow> (int \<Rightarrow> QPixmap option) \<Rightarrow> SpriteAnimator \<times> bool" where
  "load_spritesheet rt s sheet_files =
     (case load_sheets sheet_files (sheet_numbers rt s) (spritesheets s) of
        (sheets, ok) \<Rightarrow> (s\<lparr>spritesheets := sheets\<rparr>, ok))"

text \<open>\<^verbatim>\<open>QPixmap(w, h)\<close> filled with one colour: a null pixmap of size 0 unless both sides
  are positive.\<close>

definition QPixmap_new :: "int \<Rightarrow> int \<Rightarrow> image \<Rightarrow> QPixmap" where
  "QPixmap_new w h img =
     (if 0 < w \<and> 0 < h then \<lparr>pm_width = w, pm_height = h, pm_image = img\<rparr>
      else \<lparr>pm_width = 0, pm_height = 0, pm_image = img\<rparr>)"

text \<open>The frame of one slot: the region of the sheet drawn on a transparent canvas, then
  scaled to \<^verbatim>\<open>int(width * scale_factor)\<close> by \<^verbatim>\<open>int(height * scale_factor)\<close> unless the
  scale factor is 1.\<close>

definition make_frame :: "runtime \<Rightarrow> real \<Rightarrow> QPixmap \<Rightarrow> SpriteInfo \<Rightarrow> SpriteFrame" where
  "make_frame rt scale spritesheet info =
     (let canvas = QPixmap_new (width info) (height info)
                     (Cropped (pm_image spritesheet) (sheet_x info) (sheet_y info));
          canvas = (if scale \<noteq> 1
                    then qt_scaled rt (py_trunc (float_product rt (width info) scale))
                                      (py_trunc (float_product rt (height info) scale)) canvas
                    else canvas)
      in SpriteFrame canvas)"

text \<open>The body of the inner loop of \<^verbatim>\<open>load_direction_frames\<close>.\<close>

definition load_slot :: "runtime \<Rightarrow> int \<Rightarrow> int \<Rightarrow> int \<Rightarrow> SpriteAnimator \<Rightarrow> SpriteAnimator" where
  "load_slot rt base_sprite_id dir_idx i s =
     (case map_of (sprite_details s) (base_sprite_id + dir_idx + i * 4) of
        None \<Rightarrow> s
      | Some info \<Rightarrow>
          (case spritesheets s (sheet_num info) of
             None \<Rightarrow> s
           | Some spritesheet \<Rightarrow>
               s\<lparr>direction_frames := (direction_frames s)
                    (dir_idx \<mapsto> frames_at (direction_frames s) dir_idx
                                 @ [make_frame rt (scale_factor s) spritesheet info])\<rparr>))"

text \<open>All frames, as the comprehension over \<^verbatim>\<open>self.direction_frames.values()\<close> lists
  them.\<close>

definition all_frames :: "SpriteAnimator \<Rightarrow> SpriteFrame list" where
  "all_frames s = concat (map (frames_at (direction_frames s)) [0, 1, 2, 3])"

text \<open>\<^verbatim>\<open>load_direction_frames\<close>; \<open>r\<close> is the draw of \<^verbatim>\<open>random.choice(base_sprite_ids)\<close>.\<close>

definition load_direction_frames ::
  "runtime \<Rightarrow> SpriteAnimator \<Rightarrow> int list \<Rightarrow> int \<Rightarrow> nat \<Rightarrow> py_error + SpriteAnimator" where
  "load_direction_frames rt s base_sprite_ids frames_per_direction r =
     (let s = s\<lparr>direction_frames := no_frames\<rparr>
      in case random_choice base_sprite_ids r of
           Inl err \<Rightarrow> Inl err
         | Inr base_sprite_id \<Rightarrow>
             (let s = fold (\<lambda>dir_idx.
                             fold (load_slot rt base_sprite_id dir_idx)
                               [0..frames_per_direction - 1])
                        [0, 1, 2, 3] s
              in Inr (s\<lparr>max_canvas_width :=
                           max_or_zero (map (\<lambda>f. pm_width (pixmap f)) (all_frames s)),
                         max_canvas_height :=
                           max_or_zero (map (\<lambda>f. pm_height (pixmap f)) (all_frames s))\<rparr>)))"

subsection \<open>The desktop peep\<close>

record QGraphicsPixmapItem =
  item_pixmap :: "QPixmap option"
  item_pos :: "real \<times> real"

text \<open>The attributes \<open>x\<close>, \<open>y\<close>, \<open>dx\<close>, \<open>dy\<close> and \<open>fallback_pixmap\<close> exist in the fallback
  representation only; they are 0 and \<open>None\<close> otherwise.\<close>

record DesktopPeep =
  animator :: SpriteAnimator
  use_fallback :: bool
  fallback_pixmap :: "QPixmap option"
  peep_x :: int
  peep_y :: int
  peep_dx :: int
  peep_dy :: int
  graphics_item :: QGraphicsPixmapItem

record peep_env =
  rnd_peep_x :: nat
  rnd_peep_y :: nat
  rnd_peep_dx :: nat
  rnd_peep_dy :: nat
  rnd_base :: nat

text \<open>\<^verbatim>\<open>random.choice([-2, -1, 1, 2])\<close>\<close>

definition random_step :: "nat \<Rightarrow> int" where
  "random_step r = [- 2, - 1, 1, 2] ! (r mod 4)"

definition fallback_peep :: "runtime \<Rightarrow> SpriteAnimator \<Rightarrow> real \<Rightarrow> peep_env \<Rightarrow> DesktopPeep" where
  "fallback_peep rt a scale e =
     (let fallback_size = py_trunc (float_product rt 64 scale);
          pm = QPixmap_new fallback_size fallback_size Yellow
      in \<lparr> animator = a,
           use_fallback = True,
           fallback_pixmap = Some pm,
           peep_x = randint_value 0 800 (rnd_peep_x e),
           peep_y = randint_value 0 600 (rnd_peep_y e),
           peep_dx = random_step (rnd_peep_dx e),
           peep_dy = random_step (rnd_peep_dy e),
           graphics_item = \<lparr>item_pixmap = Some pm, item_pos = (0, 0)\<rparr> \<rparr>)"

text \<open>\<^verbatim>\<open>DesktopPeep.__init__\<close>: an error of \<^verbatim>\<open>load_sprite_info\<close> leaves the
  constructor, and \<^verbatim>\<open>load_spritesheet\<close> runs only when \<^verbatim>\<open>load_sprite_info\<close>
  succeeded.\<close>

definition DesktopPeep_init ::
  "runtime \<Rightarrow> int list \<Rightarrow> nfo_file \<Rightarrow> (int \<Rightarrow> QPixmap option) \<Rightarrow> real \<Rightarrow> peep_env
     \<Rightarrow> py_error + DesktopPeep" where
  "DesktopPeep_init rt base_sprite_id nfo_file sheet_files scale e =
     (case load_sprite_info (SpriteAnimator_init scale) nfo_file of
        Inl err \<Rightarrow> Inl err
      | Inr (a, info_ok) \<Rightarrow>
          if \<not> info_ok then Inr (fallback_peep rt a scale e)
          else (case load_spritesheet rt a sheet_files of
                  (a, sheets_ok) \<Rightarrow>
                    if \<not> sheets_ok then Inr (fallback_peep rt a scale e)
                    else (case load_direction_frames rt a base_sprite_id 5 (rnd_base e) of
                            Inl err \<Rightarrow> Inl err
                          | Inr a \<Rightarrow>
                              Inr \<lparr> animator = a\<lparr>move_speed := 1 / 2\<rparr>,
                                    use_fallback = False,
                                    fallback_pixmap = None,
                                    peep_x = 0, peep_y = 0, peep_dx = 0, peep_dy = 0,
                                    graphics_item =
                                      \<lparr>item_pixmap = None, item_pos = (0, 0)\<rparr> \<rparr>)))"

definition set_pos :: "real \<times> real \<Rightarrow> DesktopPeep \<Rightarrow> DesktopPeep" where
  "set_pos p peep = peep\<lparr>graphics_item := (graphics_item peep)\<lparr>item_pos := p\<rparr>\<rparr>"

definition set_pixmap :: "QPixmap \<Rightarrow> DesktopPeep \<Rightarrow> DesktopPeep" where
  "set_pixmap pm peep = peep\<lparr>graphics_item := (graphics_item peep)\<lparr>item_pixmap := Some pm\<rparr>\<rparr>"

text \<open>\<^verbatim>\<open>DesktopPeep.setup\<close>\<close>

definition DesktopPeep_setup :: "DesktopPeep \<Rightarrow> int \<Rightarrow> int \<Rightarrow> setup_env \<Rightarrow> py_error + DesktopPeep" where
  "DesktopPeep_setup peep screen_width screen_height e =
     (if \<not> use_fallback peep
      then (case setup_walking (animator peep) screen_width screen_height None None e of
              Inl err \<Rightarrow> Inl err
            | Inr a \<Rightarrow> Inr (peep\<lparr>animator := a\<rparr>))
      else Inr (set_pos (real_of_int (peep_x peep), real_of_int (peep_y peep)) peep))"

text \<open>The fallback branch of \<^verbatim>\<open>DesktopPeep.update\<close>.\<close>

definition fallback_update :: "DesktopPeep \<Rightarrow> int \<Rightarrow> int \<Rightarrow> DesktopPeep" where
  "fallback_update peep screen_width screen_height =
     (let peep = peep\<lparr>peep_x := peep_x peep + peep_dx peep\<rparr>;
          peep = peep\<lparr>peep_y := peep_y peep + peep_dy peep\<rparr>;
          peep = (if peep_x peep < 0 \<or> peep_x peep + 64 > screen_width
                  then peep\<lparr>peep_dx := peep_dx peep * - 1\<rparr> else peep);
          peep = (if peep_y peep < 0 \<or> peep_y peep + 64 > screen_height
                  then peep\<lparr>peep_dy := peep_dy peep * - 1\<rparr> else peep)
      in set_pos (real_of_int (peep_x peep), real_of_int (peep_y peep)) peep)"

text \<open>\<^verbatim>\<open>DesktopPeep.update\<close>: an \<^verbatim>\<open>IndexError\<close> of \<^verbatim>\<open>get_current_frame\<close> leaves the
  method.\<close>

definition DesktopPeep_update :: "DesktopPeep \<Rightarrow> int \<Rightarrow> int \<Rightarrow> tick \<Rightarrow> py_error + DesktopPeep" where
  "DesktopPeep_update peep screen_width screen_height t =
     (if use_fallback peep then Inr (fallback_update peep screen_width screen_height)
      else (let peep = peep\<lparr>animator := update (animator peep) screen_width screen_height t\<rparr>
            in case get_current_frame (animator peep) of
                 Inl err \<Rightarrow> Inl err
               | Inr frame \<Rightarrow>
                   (let peep = (case frame of None \<Rightarrow> peep | Some f \<Rightarrow> set_pixmap (pixmap f) peep)
                    in Inr (set_pos (get_position (animator peep)) peep))))"

section \<open>Auxiliary notions and example inputs\<close>


text \<open>The rows that \<^verbatim>\<open>load_sprite_info\<close> stores: not empty, no comment, at least 11
  fields, the nine fields it reads are integers, and width and height are in range.\<close>

definition valid_row :: "string list \<Rightarrow> bool" where
  "valid_row row =
     (row \<noteq> [] \<and> take 1 (row ! 0) \<noteq> ''#'' \<and> 11 \<le> length row \<and>
      (case parse_fields row of
         None \<Rightarrow> False
       | Some info \<Rightarrow>
           0 < width info \<and> width info < 4096 \<and> 0 < height info \<and> height info < 4096))"


text \<open>The number of calls in a run of updates that advance the frame index.\<close>

fun advances :: "SpriteAnimator \<Rightarrow> int \<Rightarrow> int \<Rightarrow> tick list \<Rightarrow> nat" where
  "advances s screen_width screen_height [] = 0"
| "advances s screen_width screen_height (t # ts) =
     (if is_moving s \<and> frame_due (now t) s then 1 else 0)
       + advances (update s screen_width screen_height t) screen_width screen_height ts"

text \<open>A metadata file with three sprites of 32 by 32 pixels on sheet 0: two frames of
  direction 0 (ids 100 and 104) and one frame of direction 1 (id 101) for the base id 100.\<close>

definition demo_rows :: "string list list" where
  "demo_rows =
     [[''0'', ''0'', ''100'', ''0'', ''32'', ''32'', ''0'', ''0'', ''0'', ''0'', ''0''],
      [''0'', ''1'', ''104'', ''0'', ''32'', ''32'', ''0'', ''0'', ''0'', ''32'', ''0''],
      [''0'', ''2'', ''101'', ''0'', ''32'', ''32'', ''0'', ''0'', ''0'', ''64'', ''0'']]"

definition demo_sheet_files :: "int \<Rightarrow> QPixmap option" where
  "demo_sheet_files n =
     (if n = 0 then Some \<lparr>pm_width = 256, pm_height = 256, pm_image = Sheet_file 0\<rparr>
      else None)"

text \<open>A runtime for the examples: the scale factor is 1 in them, so neither the scaling nor
  the product is used by the animated peep; sets are iterated in increasing order.\<close>

definition demo_runtime :: runtime where
  "demo_runtime =
     \<lparr>qt_scaled = (\<lambda>w h pm. pm\<lparr>pm_width := w, pm_height := h\<rparr>),
      float_product = (\<lambda>n v. real_of_int n * v),
      set_rank = (\<lambda>n. n)\<rparr>"

definition demo_peep_env :: peep_env where
  "demo_peep_env =
     \<lparr>rnd_peep_x = 790, rnd_peep_y = 300, rnd_peep_dx = 2, rnd_peep_dy = 2, rnd_base = 0\<rparr>"


text \<open>The animated peep built from these files.\<close>

definition demo_init :: "py_error + DesktopPeep" where
  "demo_init =
     DesktopPeep_init demo_runtime [100] (Rows demo_rows) demo_sheet_files 1 demo_peep_env"

definition demo_peep :: DesktopPeep where
  "demo_peep = projr demo_init"

text \<open>The fallback peep built when the metadata file is missing: it starts at
  \<open>(790, 300)\<close> with velocity \<open>(1, 1)\<close>.\<close>

definition demo_fallback_init :: "py_error + DesktopPeep" where
  "demo_fallback_init =
     DesktopPeep_init demo_runtime [100] Not_found demo_sheet_files 1 demo_peep_env"

definition demo_fallback :: DesktopPeep where
  "demo_fallback = projr demo_fallback_init"

text \<open>A setup at the clock reading \<open>1700000000000\<close> that draws the start \<open>(0, 0)\<close>,
  the direction 0 and the delay 3000.\<close>

definition demo_setup_env :: setup_env where
  "demo_setup_env =
     \<lparr>setup_now = 1700000000000, rnd_x = 0, rnd_y = 0, rnd_start_dir = 0,
      rnd_start_delay = 2000\<rparr>"

definition demo_setup :: "py_error + DesktopPeep" where
  "demo_setup = DesktopPeep_setup demo_peep 1920 1080 demo_setup_env"

definition demo_walking :: DesktopPeep where
  "demo_walking = projr demo_setup"

text \<open>The tick \<open>k\<close> of the 16 ms timer after the setup; its draws choose direction 1.\<close>

definition demo_tick :: "int \<Rightarrow> tick" where
  "demo_tick k = \<lparr>now = 1700000000000 + 16 * k, rnd_dir = 1, rnd_delay = 0, rnd_bounce = 1\<rparr>"

text \<open>The animator after the two loops of \<^verbatim>\<open>load_direction_frames\<close> for the base id
  \<open>b\<close>.\<close>

definition loaded :: "runtime \<Rightarrow> int \<Rightarrow> int \<Rightarrow> SpriteAnimator \<Rightarrow> SpriteAnimator" where
  "loaded rt b n s =
     fold (\<lambda>dir_idx. fold (load_slot rt b dir_idx) [0..n - 1]) [0, 1, 2, 3]
       (s\<lparr>direction_frames := no_frames\<rparr>)"


text \<open>A second setup of the animated peep, away from the screen edges: the start
  \<open>(500, 500)\<close>, the direction 0 and the delay 3000; and its animator after the first
  tick.\<close>

definition demo_mid_env :: setup_env where
  "demo_mid_env =
     \<lparr>setup_now = 1700000000000, rnd_x = 500, rnd_y = 500, rnd_start_dir = 0,
      rnd_start_delay = 2000\<rparr>"

definition demo_strolling :: SpriteAnimator where
  "demo_strolling = projr (setup_walking (animator demo_peep) 1920 1080 None None demo_mid_env)"

definition demo_stroll_1 :: SpriteAnimator where
  "demo_stroll_1 = update demo_strolling 1920 1080 (demo_tick 1)"

text \<open>The next 63 ticks of the timer, 1008 ms in all.\<close>

definition demo_run :: "tick list" where
  "demo_run = map demo_tick [2..64]"


section \<open>What each step of an update leaves alone\<close>

lemma set_direction_keeps [simp]:
  "is_moving (set_direction s d) = is_moving s"
  "max_canvas_width (set_direction s d) = max_canvas_width s"
  "max_canvas_height (set_direction s d) = max_canvas_height s"
  "pos_x (set_direction s d) = pos_x s"
  "pos_y (set_direction s d) = pos_y s"
  "move_speed (set_direction s d) = move_speed s"
  "current_direction (set_direction s d) = d"
  "next_direction_change_time (set_direction s d) = next_direction_change_time s"
  "current_frame_index (set_direction s d) = current_frame_index s"
  "last_frame_time (set_direction s d) = last_frame_time s"
  "frame_duration (set_direction s d) = frame_duration s"
  "direction_frames (set_direction s d) = direction_frames s"
  by (simp_all add: set_direction_def Let_def)

lemma advance_frame_keeps [simp]:
  "is_moving (advance_frame c s) = is_moving s"
  "max_canvas_width (advance_frame c s) = max_canvas_width s"
  "max_canvas_height (advance_frame c s) = max_canvas_height s"
  "pos_x (advance_frame c s) = pos_x s"
  "pos_y (advance_frame c s) = pos_y s"
  "velocity_x (advance_frame c s) = velocity_x s"
  "velocity_y (advance_frame c s) = velocity_y s"
  "move_speed (advance_frame c s) = move_speed s"
  "current_direction (advance_frame c s) = current_direction s"
  "next_direction_change_time (advance_frame c s) = next_direction_change_time s"
  "frame_duration (advance_frame c s) = frame_duration s"
  "direction_frames (advance_frame c s) = direction_frames s"
  by (simp_all add: advance_frame_def Let_def)

lemma change_direction_keeps [simp]:
  "is_moving (change_direction t s) = is_moving s"
  "max_canvas_width (change_direction t s) = max_canvas_width s"
  "max_canvas_height (change_direction t s) = max_canvas_height s"
  "pos_x (change_direction t s) = pos_x s"
  "pos_y (change_direction t s) = pos_y s"
  "move_speed (change_direction t s) = move_speed s"
  "current_frame_index (change_direction t s) = current_frame_index s"
  "last_frame_time (change_direction t s) = last_frame_time s"
  "frame_duration (change_direction t s) = frame_duration s"
  "direction_frames (change_direction t s) = direction_frames s"
  by (simp_all add: change_direction_def Let_def)

lemma move_keeps [simp]:
  "is_moving (move s) = is_moving s"
  "max_canvas_width (move s) = max_canvas_width s"
  "max_canvas_height (move s) = max_canvas_height s"
  "pos_x (move s) = pos_x s + velocity_x s"
  "pos_y (move s) = pos_y s + velocity_y s"
  "velocity_x (move s) = velocity_x s"
  "velocity_y (move s) = velocity_y s"
  "move_speed (move s) = move_speed s"
  "current_direction (move s) = current_direction s"
  "current_frame_index (move s) = current_frame_index s"
  "last_frame_time (move s) = last_frame_time s"
  "frame_duration (move s) = frame_duration s"
  "next_direction_change_time (move s) = next_direction_change_time s"
  "direction_frames (move s) = direction_frames s"
  by (simp_all add: move_def)

lemma bounce_keeps [simp]:
  "is_moving (bounce t sw sh s) = is_moving s"
  "max_canvas_width (bounce t sw sh s) = max_canvas_width s"
  "max_canvas_height (bounce t sw sh s) = max_canvas_height s"
  "pos_x (bounce t sw sh s) = pos_x s"
  "pos_y (bounce t sw sh s) = pos_y s"
  "move_speed (bounce t sw sh s) = move_speed s"
  "current_frame_index (bounce t sw sh s) = current_frame_index s"
  "last_frame_time (bounce t sw sh s) = last_frame_time s"
  "frame_duration (bounce t sw sh s) = frame_duration s"
  "next_direction_change_time (bounce t sw sh s) = next_direction_change_time s"
  "direction_frames (bounce t sw sh s) = direction_frames s"
  by (simp_all add: bounce_def)

lemma clamp_keeps [simp]:
  "is_moving (clamp sw sh s) = is_moving s"
  "max_canvas_width (clamp sw sh s) = max_canvas_width s"
  "max_canvas_height (clamp sw sh s) = max_canvas_height s"
  "pos_x (clamp sw sh s) = max 0 (min (pos_x s) (real_of_int (sw - max_canvas_width s)))"
  "pos_y (clamp sw sh s) = max 0 (min (pos_y s) (real_of_int (sh - max_canvas_height s)))"
  "velocity_x (clamp sw sh s) = velocity_x s"
  "velocity_y (clamp sw sh s) = velocity_y s"
  "move_speed (clamp sw sh s) = move_speed s"
  "current_direction (clamp sw sh s) = current_direction s"
  "current_frame_index (clamp sw sh s) = current_frame_index s"
  "last_frame_time (clamp sw sh s) = last_frame_time s"
  "frame_duration (clamp sw sh s) = frame_duration s"
  "next_direction_change_time (clamp sw sh s) = next_direction_change_time s"
  "direction_frames (clamp sw sh s) = direction_frames s"
  by (simp_all add: clamp_def)

lemma update_keeps [simp]:
  "is_moving (update s sw sh t) = is_moving s"
  "max_canvas_width (update s sw sh t) = max_canvas_width s"
  "max_canvas_height (update s sw sh t) = max_canvas_height s"
  "move_speed (update s sw sh t) = move_speed s"
  "frame_duration (update s sw sh t) = frame_duration s"
  "direction_frames (update s sw sh t) = direction_frames s"
  by (simp_all add: update_def)

section \<open>Random draws\<close>

lemma randint_value_range: "a \<le> b \<Longrightarrow> a \<le> randint_value a b r \<and> randint_value a b r \<le> b"
proof -
  assume ab: "a \<le> b"
  then have "0 < nat (b - a + 1)" by simp
  then have "r mod nat (b - a + 1) < nat (b - a + 1)" by (rule mod_less_divisor)
  then have "int (r mod nat (b - a + 1)) < b - a + 1" using ab by linarith
  then show ?thesis by (simp add: randint_value_def)
qed


lemma set_direction_velocity:
  "velocity_x (set_direction s d) =
     (if d = 0 \<or> d = 1 then move_speed s else if d = 2 \<or> d = 3 then - move_speed s
      else velocity_x s)"
  "velocity_y (set_direction s d) =
     (if d = 1 \<or> d = 2 then move_speed s else if d = 0 \<or> d = 3 then - move_speed s
      else velocity_y s)"
  by (simp_all add: set_direction_def Let_def)

section \<open>Updates\<close>

lemma setup_walking_fields:
  assumes "setup_walking s sw sh sx sy e = Inr s0"
  shows "is_moving s0" and "max_canvas_width s0 = max_canvas_width s"
    and "max_canvas_height s0 = max_canvas_height s"
    and "next_direction_change_time s0 = setup_now e + randint_value 1000 3000 (rnd_start_delay e)"
  using assms by (auto simp: setup_walking_def split: sum.splits)

lemma update_next_change:
  "is_moving s \<Longrightarrow>
   next_direction_change_time (update s sw sh t) =
     (if now t \<ge> next_direction_change_time s
      then now t + randint_value 1000 3000 (rnd_delay t)
      else next_direction_change_time s)"
  by (simp add: update_def change_direction_def Let_def)

lemma updates_snoc: "updates s sw sh (ts @ [t]) = update (updates s sw sh ts) sw sh t"
  by (simp add: updates_def)

lemma updates_keeps [simp]:
  "is_moving (updates s sw sh ts) = is_moving s"
  "max_canvas_width (updates s sw sh ts) = max_canvas_width s"
  "max_canvas_height (updates s sw sh ts) = max_canvas_height s"
  "move_speed (updates s sw sh ts) = move_speed s"
  "frame_duration (updates s sw sh ts) = frame_duration s"
  "direction_frames (updates s sw sh ts) = direction_frames s"
  unfolding updates_def by (induction ts arbitrary: s) simp_all

lemma update_pos:
  assumes "is_moving s"
  shows "pos_x (update s sw sh t) =
           max 0 (min (pos_x s + velocity_x (change_direction t (advance_frame (now t) s)))
                      (real_of_int (sw - max_canvas_width s)))"
    and "pos_y (update s sw sh t) =
           max 0 (min (pos_y s + velocity_y (change_direction t (advance_frame (now t) s)))
                      (real_of_int (sh - max_canvas_height s)))"
  using assms by (simp_all add: update_def)

lemma update_clamped:
  assumes "is_moving s"
  shows "0 \<le> pos_x (update s sw sh t)"
    and "pos_x (update s sw sh t) \<le> max 0 (real_of_int (sw - max_canvas_width s))"
    and "0 \<le> pos_y (update s sw sh t)"
    and "pos_y (update s sw sh t) \<le> max 0 (real_of_int (sh - max_canvas_height s))"
  using assms by (simp_all add: update_pos)


lemma update_frame:
  assumes "is_moving s"
  shows "current_frame_index (update s sw sh t) =
           (if frame_due (now t) s
            then (current_frame_index s + 1) mod int (length (frames_of s))
            else current_frame_index s)"
    and "last_frame_time (update s sw sh t) =
           (if frame_due (now t) s then now t else last_frame_time s)"
  using assms by (simp_all add: update_def advance_frame_def)

lemma update_not_moving: "\<not> is_moving s \<Longrightarrow> update s sw sh t = s"
  by (simp add: update_def)

lemma updates_Cons: "updates s sw sh (t # ts) = updates (update s sw sh t) sw sh ts"
  by (simp add: updates_def)

lemma advances_spaced:
  "last_frame_time s + int (advances s sw sh ts) * frame_duration s
     \<le> last_frame_time (updates s sw sh ts)"
proof (induction ts arbitrary: s)
  case Nil
  show ?case by (simp add: updates_def)
next
  case (Cons t ts)
  let ?s' = "update s sw sh t"
  have ih: "last_frame_time ?s' + int (advances ?s' sw sh ts) * frame_duration s
              \<le> last_frame_time (updates ?s' sw sh ts)"
    using Cons.IH [of ?s'] by simp
  show ?case
  proof (cases "is_moving s \<and> frame_due (now t) s")
    case True
    then have "last_frame_time ?s' = now t" by (simp add: update_frame)
    moreover from True have "last_frame_time s + frame_duration s \<le> now t"
      by (simp add: frame_due_def)
    ultimately show ?thesis
      using ih True by (simp add: updates_Cons algebra_simps)
  next
    case False
    then have "last_frame_time ?s' = last_frame_time s"
      by (cases "is_moving s") (simp_all add: update_frame update_not_moving)
    then show ?thesis
      using ih False by (auto simp: updates_Cons)
  qed
qed




lemma setup_walking_random_start:
  assumes "setup_walking s sw sh None None e = Inr s0"
  shows "0 \<le> pos_x s0 \<and> pos_x s0 \<le> real_of_int (sw - max_canvas_width s0)
       \<and> 0 \<le> pos_y s0 \<and> pos_y s0 \<le> real_of_int (sh - max_canvas_height s0)"
proof -
  from assms obtain vx vy where
    x: "randint 0 (sw - max_canvas_width s) (rnd_x e) = Inr vx" and
    y: "randint 0 (sh - max_canvas_height s) (rnd_y e) = Inr vy" and
    px: "pos_x s0 = real_of_int vx" and py: "pos_y s0 = real_of_int vy"
    by (auto simp: setup_walking_def start_coordinate_def split: sum.splits)
  from x have "0 \<le> vx \<and> vx \<le> sw - max_canvas_width s"
    using randint_value_range [of 0 "sw - max_canvas_width s" "rnd_x e"]
    by (auto simp: randint_def split: if_splits)
  moreover from y have "0 \<le> vy \<and> vy \<le> sh - max_canvas_height s"
    using randint_value_range [of 0 "sh - max_canvas_height s" "rnd_y e"]
    by (auto simp: randint_def split: if_splits)
  ultimately show ?thesis
    using px py setup_walking_fields(2,3) [OF assms] by simp
qed

section \<open>Loading the frames\<close>



lemma load_slot_keeps [simp]:
  "sprite_details (load_slot rt b d i s) = sprite_details s"
  "spritesheets (load_slot rt b d i s) = spritesheets s"
  "scale_factor (load_slot rt b d i s) = scale_factor s"
  by (simp_all add: load_slot_def split: option.splits)



lemma fold_load_slot_keeps [simp]:
  "sprite_details (fold (load_slot rt b d) is s) = sprite_details s"
  "spritesheets (fold (load_slot rt b d) is s) = spritesheets s"
  "scale_factor (fold (load_slot rt b d) is s) = scale_factor s"
  by (induction "is" arbitrary: s) simp_all



lemma loaded_keeps [simp]:
  "sprite_details (loaded rt b n s) = sprite_details s"
  "spritesheets (loaded rt b n s) = spritesheets s"
  "scale_factor (loaded rt b n s) = scale_factor s"
  by (simp_all add: loaded_def)









lemma all_frames_set:
  "set (all_frames s) = (\<Union>d\<in>{0, 1, 2, 3}. set (frames_at (direction_frames s) d))"
  by (simp add: all_frames_def)

section \<open>Loading the metadata and the sheets\<close>



lemma load_row_skip: "\<not> valid_row row \<Longrightarrow> load_row row details = details"
  by (auto simp: load_row_def valid_row_def split: option.splits)








lemma fold_load_row_skip:
  "\<not> valid_row row \<Longrightarrow>
   fold load_row (rows1 @ row # rows2) details = fold load_row (rows1 @ rows2) details"
  by (simp add: load_row_skip)



lemma load_sheets_ok:
  "snd (load_sheets sheet_files ns sheets) \<longleftrightarrow> (\<forall>n\<in>set ns. sheet_files n \<noteq> None)"
  by (induction ns arbitrary: sheets) (auto split: option.splits)

lemma load_sheets_stops:
  "\<forall>k\<in>set ns1. sheet_files k \<noteq> None \<Longrightarrow> sheet_files n = None \<Longrightarrow>
   load_sheets sheet_files (ns1 @ n # ns2) sheets
     = (fst (load_sheets sheet_files ns1 sheets), False)"
  by (induction ns1 arbitrary: sheets) (auto split: option.splits)

lemma set_sheet_numbers:
  "set (sheet_numbers rt a) = (\<lambda>(k, info). sheet_num info) ` set (sprite_details a)"
  by (simp add: sheet_numbers_def)

lemma load_spritesheet_ok:
  "snd (load_spritesheet rt a sheet_files) \<longleftrightarrow>
     (\<forall>(k, info)\<in>set (sprite_details a). sheet_files (sheet_num info) \<noteq> None)"
proof -
  have "snd (load_spritesheet rt a sheet_files)
          = snd (load_sheets sheet_files (sheet_numbers rt a) (spritesheets a))"
    by (simp add: load_spritesheet_def split: prod.splits)
  also have "\<dots> \<longleftrightarrow> (\<forall>n\<in>set (sheet_numbers rt a). sheet_files n \<noteq> None)"
    by (rule load_sheets_ok)
  also have "\<dots> \<longleftrightarrow>
     (\<forall>(k, info)\<in>set (sprite_details a). sheet_files (sheet_num info) \<noteq> None)"
    unfolding set_sheet_numbers by fastforce
  finally show ?thesis .
qed

lemma fallback_peep_fields [simp]:
  "use_fallback (fallback_peep rt a scale e)"
  "fallback_pixmap (fallback_peep rt a scale e) =
     Some (QPixmap_new (py_trunc (float_product rt 64 scale))
                       (py_trunc (float_product rt 64 scale)) Yellow)"
  "item_pixmap (graphics_item (fallback_peep rt a scale e)) =
     Some (QPixmap_new (py_trunc (float_product rt 64 scale))
                       (py_trunc (float_product rt 64 scale)) Yellow)"
  by (simp_all add: fallback_peep_def Let_def)

lemma DesktopPeep_init_cases:
  "DesktopPeep_init rt ids nfo_file sheet_files scale e =
     (case load_sprite_info (SpriteAnimator_init scale) nfo_file of
        Inl err \<Rightarrow> Inl err
      | Inr (a, info_ok) \<Rightarrow>
          if \<not> info_ok \<or> \<not> snd (load_spritesheet rt a sheet_files)
          then Inr (fallback_peep rt (if info_ok then fst (load_spritesheet rt a sheet_files) else a)
                      scale e)
          else (case load_direction_frames rt (fst (load_spritesheet rt a sheet_files)) ids 5
                       (rnd_base e) of
                  Inl err \<Rightarrow> Inl err
                | Inr a' \<Rightarrow>
                    Inr \<lparr> animator = a'\<lparr>move_speed := 1 / 2\<rparr>,
                          use_fallback = False,
                          fallback_pixmap = None,
                          peep_x = 0, peep_y = 0, peep_dx = 0, peep_dy = 0,
                          graphics_item = \<lparr>item_pixmap = None, item_pos = (0, 0)\<rparr> \<rparr>))"
  by (simp add: DesktopPeep_init_def split: sum.splits prod.splits)

lemma DesktopPeep_init_flag:
  assumes "DesktopPeep_init rt ids nfo_file sheet_files scale e = Inr p"
  shows "\<exists>a ok. load_sprite_info (SpriteAnimator_init scale) nfo_file = Inr (a, ok)
           \<and> (use_fallback p \<longleftrightarrow> \<not> ok \<or> \<not> snd (load_spritesheet rt a sheet_files))"
  using assms
  by (auto simp: DesktopPeep_init_cases split: sum.splits prod.splits if_splits)

lemma DesktopPeep_init_fallback:
  assumes "load_sprite_info (SpriteAnimator_init scale) nfo_file = Inr (a, ok)"
      and "\<not> ok \<or> \<not> snd (load_spritesheet rt a sheet_files)"
  shows "\<exists>p. DesktopPeep_init rt ids nfo_file sheet_files scale e = Inr p \<and> use_fallback p"
  using assms by (auto simp: DesktopPeep_init_cases)

lemma DesktopPeep_init_pixmap:
  assumes "DesktopPeep_init rt ids nfo_file sheet_files scale e = Inr p"
  shows "fallback_pixmap p =
           (if use_fallback p
            then Some (QPixmap_new (py_trunc (float_product rt 64 scale))
                                   (py_trunc (float_product rt 64 scale)) Yellow)
            else None)"
    and "item_pixmap (graphics_item p) = fallback_pixmap p"
  using assms
  by (auto simp: DesktopPeep_init_cases split: sum.splits prod.splits if_splits)

lemma DesktopPeep_init_raises:
  "load_sprite_info (SpriteAnimator_init scale) nfo_file = Inl err \<Longrightarrow>
   DesktopPeep_init rt ids nfo_file sheet_files scale e = Inl err"
  by (simp add: DesktopPeep_init_def)

lemma set_pos_keeps [simp]:
  "use_fallback (set_pos q p) = use_fallback p"
  "animator (set_pos q p) = animator p"
  "item_pixmap (graphics_item (set_pos q p)) = item_pixmap (graphics_item p)"
  by (simp_all add: set_pos_def)

lemma set_pixmap_keeps [simp]:
  "use_fallback (set_pixmap pm p) = use_fallback p"
  "animator (set_pixmap pm p) = animator p"
  by (simp_all add: set_pixmap_def)

lemma fallback_update_keeps [simp]:
  "use_fallback (fallback_update p sw sh) = use_fallback p"
  "animator (fallback_update p sw sh) = animator p"
  "item_pixmap (graphics_item (fallback_update p sw sh)) = item_pixmap (graphics_item p)"
  by (simp_all add: fallback_update_def Let_def)

lemma DesktopPeep_setup_flag:
  "DesktopPeep_setup p sw sh e = Inr p' \<Longrightarrow> use_fallback p' = use_fallback p"
  by (auto simp: DesktopPeep_setup_def split: if_splits sum.splits)

lemma DesktopPeep_update_flag:
  "DesktopPeep_update p sw sh t = Inr p' \<Longrightarrow> use_fallback p' = use_fallback p"
  by (auto simp: DesktopPeep_update_def Let_def split: if_splits sum.splits option.splits)

text \<open>What holds of the representation whenever the constructor returns a peep: it is the
  fallback, a yellow square of side \<^verbatim>\<open>int(64 * scale_factor)\<close>, exactly when
  \<^verbatim>\<open>load_sprite_info\<close> returned failure or a sheet of the loaded metadata did not load;
  the flag never changes afterwards, and the update of a fallback peep keeps the animator
  and the pixmap.\<close>

lemma fallback_when_load_returns_failure:
  "(DesktopPeep_init rt ids nfo_file sheet_files scale e = Inr p \<longrightarrow>
      (\<exists>a ok. load_sprite_info (SpriteAnimator_init scale) nfo_file = Inr (a, ok)
         \<and> (use_fallback p \<longleftrightarrow>
               \<not> ok \<or> (\<exists>(k, info)\<in>set (sprite_details a). sheet_files (sheet_num info) = None)))
      \<and> fallback_pixmap p =
          (if use_fallback p
           then Some (QPixmap_new (py_trunc (float_product rt 64 scale))
                                  (py_trunc (float_product rt 64 scale)) Yellow)
           else None)
      \<and> item_pixmap (graphics_item p) = fallback_pixmap p)
   \<and> (load_sprite_info (SpriteAnimator_init scale) nfo_file = Inr (a, ok)
        \<and> (\<not> ok \<or> (\<exists>(k, info)\<in>set (sprite_details a). sheet_files (sheet_num info) = None))
       \<longrightarrow> (\<exists>q. DesktopPeep_init rt ids nfo_file sheet_files scale e = Inr q
                \<and> use_fallback q))
   \<and> (load_sprite_info (SpriteAnimator_init scale) nfo_file = Inl err \<longrightarrow>
         DesktopPeep_init rt ids nfo_file sheet_files scale e = Inl err)
   \<and> (snd (load_spritesheet rt b sheet_files) \<longleftrightarrow>
         (\<forall>(k, info)\<in>set (sprite_details b). sheet_files (sheet_num info) \<noteq> None))
   \<and> ((\<forall>k\<in>set ns1. sheet_files k \<noteq> None) \<and> sheet_files n = None \<longrightarrow>
         load_sheets sheet_files (ns1 @ n # ns2) sheets
           = (fst (load_sheets sheet_files ns1 sheets), False))
   \<and> (DesktopPeep_setup p sw sh se = Inr p' \<longrightarrow> use_fallback p' = use_fallback p)
   \<and> (DesktopPeep_update p sw sh t = Inr p'' \<longrightarrow> use_fallback p'' = use_fallback p)
   \<and> (use_fallback p \<longrightarrow>
         DesktopPeep_update p sw sh t = Inr (fallback_update p sw sh)
         \<and> animator (fallback_update p sw sh) = animator p
         \<and> item_pixmap (graphics_item (fallback_update p sw sh))
             = item_pixmap (graphics_item p))"
proof -
  have sheets: "\<not> snd (load_spritesheet rt x sheet_files) \<longleftrightarrow>
          (\<exists>(k, info)\<in>set (sprite_details x). sheet_files (sheet_num info) = None)" for x
    unfolding load_spritesheet_ok by fastforce
  have c1: "(\<exists>a ok. load_sprite_info (SpriteAnimator_init scale) nfo_file = Inr (a, ok)
         \<and> (use_fallback p \<longleftrightarrow>
               \<not> ok \<or> (\<exists>(k, info)\<in>set (sprite_details a). sheet_files (sheet_num info) = None)))
      \<and> fallback_pixmap p =
          (if use_fallback p
           then Some (QPixmap_new (py_trunc (float_product rt 64 scale))
                                  (py_trunc (float_product rt 64 scale)) Yellow)
           else None)
      \<and> item_pixmap (graphics_item p) = fallback_pixmap p"
    if i: "DesktopPeep_init rt ids nfo_file sheet_files scale e = Inr p"
    using DesktopPeep_init_flag [OF i] DesktopPeep_init_pixmap [OF i]
    unfolding sheets by blast
  have c2: "\<exists>q. DesktopPeep_init rt ids nfo_file sheet_files scale e = Inr q \<and> use_fallback q"
    if "load_sprite_info (SpriteAnimator_init scale) nfo_file = Inr (a, ok)
        \<and> (\<not> ok \<or> (\<exists>(k, info)\<in>set (sprite_details a). sheet_files (sheet_num info) = None))"
    using that DesktopPeep_init_fallback [of scale nfo_file a ok rt sheet_files ids e]
    unfolding sheets by blast
  have c3: "DesktopPeep_init rt ids nfo_file sheet_files scale e = Inl err"
    if "load_sprite_info (SpriteAnimator_init scale) nfo_file = Inl err"
    using that by (rule DesktopPeep_init_raises)
  have c4: "load_sheets sheet_files (ns1 @ n # ns2) sheets
           = (fst (load_sheets sheet_files ns1 sheets), False)"
    if "(\<forall>k\<in>set ns1. sheet_files k \<noteq> None) \<and> sheet_files n = None"
    using that by (simp add: load_sheets_stops)
  have c7: "DesktopPeep_update p sw sh t = Inr (fallback_update p sw sh)
         \<and> animator (fallback_update p sw sh) = animator p
         \<and> item_pixmap (graphics_item (fallback_update p sw sh))
             = item_pixmap (graphics_item p)"
    if "use_fallback p"
    using that by (simp add: DesktopPeep_update_def)
  from c1 c2 c3 load_spritesheet_ok [of rt b sheet_files] c4
       DesktopPeep_setup_flag [of p sw sh se p'] DesktopPeep_update_flag [of p sw sh t p''] c7
  show ?thesis by blast
qed

section \<open>The example inputs\<close>

lemma sum_is_Inr: "(case v of Inl _ \<Rightarrow> False | Inr _ \<Rightarrow> True) \<Longrightarrow> v = Inr (projr v)"
  by (cases v) simp_all

lemma sum_is_Inl: "(case v of Inl e \<Rightarrow> e = err | Inr _ \<Rightarrow> False) \<Longrightarrow> v = Inl err"
  by (cases v) simp_all

lemma demo_init_ok: "demo_init = Inr demo_peep"
  unfolding demo_peep_def by (rule sum_is_Inr) code_simp

lemma demo_setup_ok: "demo_setup = Inr demo_walking"
  unfolding demo_walking_def by (rule sum_is_Inr) code_simp

lemma demo_fallback_ok: "demo_fallback_init = Inr demo_fallback"
  unfolding demo_fallback_def by (rule sum_is_Inr) code_simp

lemma demo_peep_facts:
  "\<not> use_fallback demo_peep"
  "frames_at (direction_frames (animator demo_peep)) 0 =
     [SpriteFrame \<lparr>pm_width = 32, pm_height = 32, pm_image = Cropped (Sheet_file 0) 0 0\<rparr>,
      SpriteFrame \<lparr>pm_width = 32, pm_height = 32, pm_image = Cropped (Sheet_file 0) 32 0\<rparr>]"
  "frames_at (direction_frames (animator demo_peep)) 1 =
     [SpriteFrame \<lparr>pm_width = 32, pm_height = 32, pm_image = Cropped (Sheet_file 0) 64 0\<rparr>]"
  "max_canvas_width (animator demo_peep) = 32"
  "max_canvas_height (animator demo_peep) = 32"
  by code_simp+

lemma demo_walking_facts:
  "\<not> use_fallback demo_walking"
  "is_moving (animator demo_walking)"
  "current_direction (animator demo_walking) = 0"
  "current_frame_index (animator demo_walking) = 0"
  "pos_x (animator demo_walking) = 0" "pos_y (animator demo_walking) = 0"
  "length (frames_of (animator demo_walking)) = 2"
  by code_simp+

lemma demo_index_error:
  "DesktopPeep_update demo_walking 1920 1080 (demo_tick 1) = Inl IndexError"
  by (rule sum_is_Inl) code_simp

lemma demo_index_state:
  "current_direction (update (animator demo_walking) 1920 1080 (demo_tick 1)) = 1"
  "current_frame_index (update (animator demo_walking) 1920 1080 (demo_tick 1)) = 1"
  "length (frames_of (update (animator demo_walking) 1920 1080 (demo_tick 1))) = 1"
  by code_simp+

lemma demo_fallback_facts:
  "use_fallback demo_fallback"
  "peep_x demo_fallback = 790" "peep_y demo_fallback = 300"
  "peep_dx demo_fallback = 1" "peep_dy demo_fallback = 1"
  "peep_dx (fallback_update demo_fallback 800 600) = - 1"
  "peep_x (fallback_update demo_fallback 800 600) = 791"
  "peep_dx (fallback_update (fallback_update demo_fallback 800 600) 800 600) = 1"
  "peep_x (fallback_update (fallback_update demo_fallback 800 600) 800 600) = 790"
  by code_simp+

lemma demo_setup_walking:
  "setup_walking (animator demo_peep) 1920 1080 None None demo_setup_env
     = Inr (animator demo_walking)"
proof (cases "setup_walking (animator demo_peep) 1920 1080 None None demo_setup_env")
  case (Inl err)
  with demo_setup_ok demo_peep_facts(1) show ?thesis
    by (simp add: demo_setup_def DesktopPeep_setup_def)
next
  case (Inr a)
  with demo_setup_ok demo_peep_facts(1) have "demo_walking = demo_peep\<lparr>animator := a\<rparr>"
    by (simp add: demo_setup_def DesktopPeep_setup_def)
  then have "animator demo_walking = animator (demo_peep\<lparr>animator := a\<rparr>)"
    by (rule arg_cong)
  then have "animator demo_walking = a" by simp
  with Inr show ?thesis by simp
qed


lemma demo_walking_schedule:
  "is_moving (animator demo_walking)"
  "next_direction_change_time (animator demo_walking) = 1700000003000"
  "now (demo_tick 200) = 1700000003200"
  "setup_now demo_setup_env = 1700000000000"
  by code_simp+

lemma demo_first_update:
  "pos_x (update (animator demo_walking) 1920 1080 (demo_tick 1)) = 1 / 2"
  "pos_y (update (animator demo_walking) 1920 1080 (demo_tick 1)) = 0"
  "max_canvas_width (animator demo_walking) = 32"
  "max_canvas_height (animator demo_walking) = 32"
  by code_simp+



lemma demo_strolling_ok:
  "setup_walking (animator demo_peep) 1920 1080 None None demo_mid_env = Inr demo_strolling"
  unfolding demo_strolling_def by (rule sum_is_Inr) code_simp

lemma demo_stroll_facts:
  "is_moving demo_stroll_1"
  "length (frames_of demo_stroll_1) = 2"
  "frame_duration demo_stroll_1 = 100"
  "last_frame_time demo_stroll_1 = 1700000000016"
  "current_frame_index demo_stroll_1 = 1"
  "now (demo_tick 64) = 1700000001024"
  by code_simp+

lemma demo_stroll_run:
  "advances demo_stroll_1 1920 1080 demo_run = 9"
  "current_frame_index (updates demo_stroll_1 1920 1080 demo_run) = 0"
  by code_simp+

lemma demo_strolling_facts:
  "is_moving demo_strolling"
  "length (frames_of demo_strolling) = 2"
  "current_frame_index demo_strolling = 0"
  "last_frame_time demo_strolling = 0"
  "frame_duration demo_strolling = 100"
  "now (demo_tick 1) = 1700000000016"
  "now (demo_tick 2) = 1700000000032"
  by code_simp+

lemma demo_init_eq:
  "DesktopPeep_init demo_runtime [100] (Rows demo_rows) demo_sheet_files 1 demo_peep_env
     = Inr demo_peep"
  using demo_init_ok by (simp add: demo_init_def)

lemma demo_setup_eq:
  "DesktopPeep_setup demo_peep 1920 1080 demo_setup_env = Inr demo_walking"
  using demo_setup_ok by (simp add: demo_setup_def)

lemma demo_fallback_eq:
  "DesktopPeep_init demo_runtime [100] Not_found demo_sheet_files 1 demo_peep_env = Inr demo_fallback"
  using demo_fallback_ok by (simp add: demo_fallback_init_def)

lemma demo_frame_error:
  "get_current_frame (update (animator demo_walking) 1920 1080 (demo_tick 1)) = Inl IndexError"
  by (rule sum_is_Inl) code_simp

lemma demo_fallback_update:
  "DesktopPeep_update demo_fallback 800 600 (demo_tick 1)
     = Inr (fallback_update demo_fallback 800 600)"
  using demo_fallback_facts(1) by (simp add: DesktopPeep_update_def)





lemma demo_fallback_square:
  "item_pixmap (graphics_item demo_fallback)
     = Some \<lparr>pm_width = 64, pm_height = 64, pm_image = Yellow\<rparr>"
  "map_sum id use_fallback
     (DesktopPeep_init demo_runtime [100] (Rows demo_rows) (\<lambda>n. None) 1 demo_peep_env)
     = Inr True"
  by code_simp+

lemma demo_unreadable:
  "load_sprite_info (SpriteAnimator_init 1) Open_error = Inl OSError"
  "load_sprite_info (SpriteAnimator_init 1) (Rows_then_error demo_rows) = Inl ReaderError"
  "DesktopPeep_init demo_runtime [100] Open_error demo_sheet_files 1 demo_peep_env
     = Inl OSError"
  "DesktopPeep_init demo_runtime [100] (Rows_then_error demo_rows) demo_sheet_files 1
     demo_peep_env = Inl ReaderError"
  by (simp_all add: load_sprite_info_def DesktopPeep_init_def)

section \<open>The claims\<close>



text \<open>
  C8: the time of the next direction change that \<^verbatim>\<open>setup_walking\<close> sets, and the one
  that the direction-change branch of \<^verbatim>\<open>update\<close> sets, lies between 1000 and 3000 ms
  after the clock reading of that call, so it is strictly later than that reading.
\<close>

theorem next_change_scheduled_ahead:
  "(setup_walking s0 sw sh sx sy e = Inr s1 \<longrightarrow>
      setup_now e + 1000 \<le> next_direction_change_time s1
    \<and> next_direction_change_time s1 \<le> setup_now e + 3000
    \<and> setup_now e < next_direction_change_time s1)
   \<and> (is_moving s \<and> now t \<ge> next_direction_change_time s \<longrightarrow>
      now t + 1000 \<le> next_direction_change_time (update s sw sh t)
    \<and> next_direction_change_time (update s sw sh t) \<le> now t + 3000
    \<and> now t < next_direction_change_time (update s sw sh t))"
  using randint_value_range [of 1000 3000 "rnd_start_delay e"]
        randint_value_range [of 1000 3000 "rnd_delay t"]
  by (auto simp: update_next_change dest: setup_walking_fields(4))

theorem next_change_scheduled_ahead_witness:
  "setup_walking (animator demo_peep) 1920 1080 None None demo_setup_env
     = Inr (animator demo_walking)
   \<and> is_moving (animator demo_walking)
   \<and> now (demo_tick 200) \<ge> next_direction_change_time (animator demo_walking)
   \<and> 1700000001000 \<le> next_direction_change_time (animator demo_walking)
   \<and> next_direction_change_time (animator demo_walking) \<le> 1700000003000
   \<and> 1700000004200 \<le>
        next_direction_change_time (update (animator demo_walking) 1920 1080 (demo_tick 200))
   \<and> next_direction_change_time (update (animator demo_walking) 1920 1080 (demo_tick 200))
        \<le> 1700000006200"
  using next_change_scheduled_ahead
          [of "animator demo_peep" 1920 1080 None None demo_setup_env "animator demo_walking"
              "animator demo_walking" "demo_tick 200"]
        demo_setup_walking
  by (simp add: demo_walking_schedule)

text \<open>
  C9: for each direction \<open>d\<close> of \<open>0..3\<close>, \<^verbatim>\<open>set_direction\<close> stores \<open>d\<close> as the current
  direction and sets the velocity to \<open>(speed, - speed)\<close>, \<open>(speed, speed)\<close>,
  \<open>(- speed, speed)\<close>, \<open>(- speed, - speed)\<close> for \<open>d = 0, 1, 2, 3\<close>, where \<open>speed\<close> is
  \<open>move_speed\<close>. For a positive speed (it is 1 or 0.5 in the program) both components
  have the absolute value \<open>speed\<close> and the signs are \<open>(+,-)\<close>, \<open>(+,+)\<close>, \<open>(-,+)\<close>,
  \<open>(-,-)\<close>.
\<close>

theorem set_direction_diagonal:
  assumes "d \<in> {0, 1, 2, 3}"
  shows "current_direction (set_direction s d) = d
       \<and> (velocity_x (set_direction s d), velocity_y (set_direction s d)) =
           (if d = 0 then (move_speed s, - move_speed s)
            else if d = 1 then (move_speed s, move_speed s)
            else if d = 2 then (- move_speed s, move_speed s)
            else (- move_speed s, - move_speed s))
       \<and> \<bar>velocity_x (set_direction s d)\<bar> = \<bar>move_speed s\<bar>
       \<and> \<bar>velocity_y (set_direction s d)\<bar> = \<bar>move_speed s\<bar>
       \<and> (0 < move_speed s \<longrightarrow>
            \<bar>velocity_x (set_direction s d)\<bar> = move_speed s
          \<and> \<bar>velocity_y (set_direction s d)\<bar> = move_speed s
          \<and> (sgn (velocity_x (set_direction s d)), sgn (velocity_y (set_direction s d))) =
              (if d = 0 then (1, - 1) else if d = 1 then (1, 1)
               else if d = 2 then (- 1, 1) else (- 1, - 1)))"
  using assms by (auto simp: set_direction_velocity)

theorem set_direction_diagonal_witness:
  "(0::int) \<in> {0, 1, 2, 3} \<and> 0 < move_speed (SpriteAnimator_init 1)
   \<and> current_direction (set_direction (SpriteAnimator_init 1) 0) = 0
   \<and> velocity_x (set_direction (SpriteAnimator_init 1) 0) = 1
   \<and> velocity_y (set_direction (SpriteAnimator_init 1) 0) = - 1"
  using set_direction_diagonal [of 0 "SpriteAnimator_init 1"]
  by (simp add: SpriteAnimator_init_def)

text \<open>
  C1, as amended: after \<^verbatim>\<open>setup_walking\<close> and at least one \<^verbatim>\<open>update(screenW, screenH)\<close>
  the position satisfies \<open>0 \<le> pos_x \<le> max 0 (screenW - max_canvas_width)\<close> and
  \<open>0 \<le> pos_y \<le> max 0 (screenH - max_canvas_height)\<close>; so on an axis where the bounding
  box fits the screen the position is at most \<open>screenDim - boundingBoxDim\<close>. Directly
  after a \<^verbatim>\<open>setup_walking\<close> that draws the start at random, which returns only when the
  box fits, the position is within \<open>[0, screenDim - boundingBoxDim]\<close> on both axes too.
\<close>

theorem clamp_invariant_when_box_fits:
  "(setup_walking s sw0 sh0 sx sy e = Inr s0 \<and> ts \<noteq> [] \<longrightarrow>
      (let u = updates s0 sw sh ts
       in 0 \<le> pos_x u \<and> pos_x u \<le> max 0 (real_of_int (sw - max_canvas_width u))
        \<and> 0 \<le> pos_y u \<and> pos_y u \<le> max 0 (real_of_int (sh - max_canvas_height u))
        \<and> (max_canvas_width u \<le> sw \<longrightarrow> pos_x u \<le> real_of_int (sw - max_canvas_width u))
        \<and> (max_canvas_height u \<le> sh \<longrightarrow> pos_y u \<le> real_of_int (sh - max_canvas_height u))))
   \<and> (setup_walking s sw sh None None e = Inr s0 \<longrightarrow>
        0 \<le> pos_x s0 \<and> pos_x s0 \<le> real_of_int (sw - max_canvas_width s0)
      \<and> 0 \<le> pos_y s0 \<and> pos_y s0 \<le> real_of_int (sh - max_canvas_height s0))"
proof -
  have after_updates: "let u = updates s0 sw sh ts
       in 0 \<le> pos_x u \<and> pos_x u \<le> max 0 (real_of_int (sw - max_canvas_width u))
        \<and> 0 \<le> pos_y u \<and> pos_y u \<le> max 0 (real_of_int (sh - max_canvas_height u))
        \<and> (max_canvas_width u \<le> sw \<longrightarrow> pos_x u \<le> real_of_int (sw - max_canvas_width u))
        \<and> (max_canvas_height u \<le> sh \<longrightarrow> pos_y u \<le> real_of_int (sh - max_canvas_height u))"
    if a: "setup_walking s sw0 sh0 sx sy e = Inr s0 \<and> ts \<noteq> []"
  proof -
    from a obtain ts' t where ts: "ts = ts' @ [t]" by (metis rev_exhaust)
    define v where "v = updates s0 sw sh ts'"
    from a have "is_moving s0" by (auto dest: setup_walking_fields(1))
    then have mv: "is_moving v" by (simp add: v_def)
    have u: "updates s0 sw sh ts = update v sw sh t" by (simp add: ts v_def updates_snoc)
    have w: "max_canvas_width (update v sw sh t) = max_canvas_width v"
            "max_canvas_height (update v sw sh t) = max_canvas_height v"
      by simp_all
    show ?thesis
      unfolding Let_def u w using update_clamped [OF mv, of sw sh t] by auto
  qed
  have after_setup: "0 \<le> pos_x s0 \<and> pos_x s0 \<le> real_of_int (sw - max_canvas_width s0)
      \<and> 0 \<le> pos_y s0 \<and> pos_y s0 \<le> real_of_int (sh - max_canvas_height s0)"
    if "setup_walking s sw sh None None e = Inr s0"
    using that by (rule setup_walking_random_start)
  from after_updates after_setup show ?thesis by blast
qed

theorem clamp_invariant_when_box_fits_witness:
  "setup_walking (animator demo_peep) 1920 1080 None None demo_setup_env
     = Inr (animator demo_walking)
   \<and> [demo_tick 1] \<noteq> []
   \<and> max_canvas_width (animator demo_walking) \<le> 1920
   \<and> max_canvas_height (animator demo_walking) \<le> 1080
   \<and> 0 \<le> pos_x (updates (animator demo_walking) 1920 1080 [demo_tick 1])
   \<and> pos_x (updates (animator demo_walking) 1920 1080 [demo_tick 1]) \<le> 1888
   \<and> 0 \<le> pos_y (updates (animator demo_walking) 1920 1080 [demo_tick 1])
   \<and> pos_y (updates (animator demo_walking) 1920 1080 [demo_tick 1]) \<le> 1048
   \<and> 0 \<le> pos_x (animator demo_walking) \<and> pos_x (animator demo_walking) \<le> 1888
   \<and> 0 \<le> pos_y (animator demo_walking) \<and> pos_y (animator demo_walking) \<le> 1048"
  using clamp_invariant_when_box_fits
          [where s = "animator demo_peep" and ?sw0.0 = 1920 and ?sh0.0 = 1080 and sx = None
             and sy = None and e = demo_setup_env and ?s0.0 = "animator demo_walking"
             and ts = "[demo_tick 1]" and sw = 1920 and sh = 1080]
        demo_setup_walking
  by (simp add: Let_def demo_first_update(3,4))

text \<open>
  The claim C1 as stated fails where the bounding box is wider than the screen: the
  walking example peep, 32 pixels wide, updated for a screen 20 pixels wide, is clamped to
  \<open>pos_x = 0\<close>, which is above \<open>screenW - max_canvas_width = - 12\<close>.
\<close>

theorem clamp_invariant_counterexample:
  "setup_walking (animator demo_peep) 1920 1080 None None demo_setup_env
     = Inr (animator demo_walking)
   \<and> is_moving (animator demo_walking)
   \<and> max_canvas_width (update (animator demo_walking) 20 20 (demo_tick 1)) = 32
   \<and> pos_x (update (animator demo_walking) 20 20 (demo_tick 1)) = 0
   \<and> \<not> (pos_x (update (animator demo_walking) 20 20 (demo_tick 1))
          \<le> real_of_int (20 - max_canvas_width (update (animator demo_walking) 20 20 (demo_tick 1))))"
proof -
  have "is_moving (animator demo_walking)"
       "max_canvas_width (update (animator demo_walking) 20 20 (demo_tick 1)) = 32"
       "pos_x (update (animator demo_walking) 20 20 (demo_tick 1)) = 0"
    by code_simp+
  with demo_setup_walking show ?thesis by simp
qed




text \<open>
  C5, as amended: for a walking animator, an \<^verbatim>\<open>update\<close> at the clock reading \<open>now\<close>
  advances \<open>current_frame_index\<close> by one modulo the number of frames of the current
  direction (to 0 after the last frame) and sets \<open>last_frame_time\<close> to \<open>now\<close> when that
  direction has a frame and \<open>now - last_frame_time \<ge> frame_duration\<close>; otherwise it
  leaves both unchanged. Over any run of updates the advances are at least
  \<open>frame_duration\<close> apart: \<open>last_frame_time\<close> grows by at least \<open>frame_duration\<close> times the
  number of advances, so there is at most one advance per \<open>frame_duration\<close> elapsed.
\<close>

theorem frame_index_modulo_counter:
  "(is_moving s \<and> frames_of s \<noteq> [] \<and> now t - last_frame_time s \<ge> frame_duration s \<longrightarrow>
       current_frame_index (update s sw sh t)
         = (current_frame_index s + 1) mod int (length (frames_of s))
     \<and> last_frame_time (update s sw sh t) = now t
     \<and> (0 \<le> current_frame_index s \<and> current_frame_index s + 1 < int (length (frames_of s))
          \<longrightarrow> current_frame_index (update s sw sh t) = current_frame_index s + 1)
     \<and> (current_frame_index s + 1 = int (length (frames_of s))
          \<longrightarrow> current_frame_index (update s sw sh t) = 0))
   \<and> (is_moving s \<and> \<not> (frames_of s \<noteq> [] \<and> now t - last_frame_time s \<ge> frame_duration s)
        \<longrightarrow> current_frame_index (update s sw sh t) = current_frame_index s
          \<and> last_frame_time (update s sw sh t) = last_frame_time s)
   \<and> last_frame_time s + int (advances s sw sh ts) * frame_duration s
        \<le> last_frame_time (updates s sw sh ts)"
proof -
  have due: "current_frame_index (update s sw sh t)
         = (current_frame_index s + 1) mod int (length (frames_of s))
     \<and> last_frame_time (update s sw sh t) = now t
     \<and> (0 \<le> current_frame_index s \<and> current_frame_index s + 1 < int (length (frames_of s))
          \<longrightarrow> current_frame_index (update s sw sh t) = current_frame_index s + 1)
     \<and> (current_frame_index s + 1 = int (length (frames_of s))
          \<longrightarrow> current_frame_index (update s sw sh t) = 0)"
    if "is_moving s \<and> frames_of s \<noteq> [] \<and> now t - last_frame_time s \<ge> frame_duration s"
    using that by (auto simp: update_frame frame_due_def)
  have not_due: "current_frame_index (update s sw sh t) = current_frame_index s
          \<and> last_frame_time (update s sw sh t) = last_frame_time s"
    if "is_moving s \<and> \<not> (frames_of s \<noteq> [] \<and> now t - last_frame_time s \<ge> frame_duration s)"
    using that by (auto simp: update_frame frame_due_def)
  from due not_due advances_spaced [of s sw sh ts] show ?thesis by blast
qed

theorem frame_index_modulo_counter_witness:
  "is_moving demo_strolling
   \<and> frames_of demo_strolling \<noteq> []
   \<and> now (demo_tick 1) - last_frame_time demo_strolling \<ge> frame_duration demo_strolling
   \<and> current_frame_index (update demo_strolling 1920 1080 (demo_tick 1)) = 1
   \<and> last_frame_time (update demo_strolling 1920 1080 (demo_tick 1)) = 1700000000016
   \<and> is_moving demo_stroll_1
   \<and> \<not> (frames_of demo_stroll_1 \<noteq> []
          \<and> now (demo_tick 2) - last_frame_time demo_stroll_1 \<ge> frame_duration demo_stroll_1)
   \<and> current_frame_index (update demo_stroll_1 1920 1080 (demo_tick 2)) = 1
   \<and> 1700000000916 \<le> last_frame_time (updates demo_stroll_1 1920 1080 demo_run)"
proof -
  have ne: "frames_of demo_strolling \<noteq> []"
    using demo_strolling_facts(2) by auto
  have a: "is_moving demo_strolling \<and> frames_of demo_strolling \<noteq> []
           \<and> now (demo_tick 1) - last_frame_time demo_strolling \<ge> frame_duration demo_strolling"
    using ne by (simp add: demo_strolling_facts)
  have b: "is_moving demo_stroll_1
           \<and> \<not> (frames_of demo_stroll_1 \<noteq> []
                 \<and> now (demo_tick 2) - last_frame_time demo_stroll_1 \<ge> frame_duration demo_stroll_1)"
    by (simp add: demo_stroll_facts demo_strolling_facts)
  from a frame_index_modulo_counter [of demo_strolling "demo_tick 1" 1920 1080 "[]"]
  have a': "current_frame_index (update demo_strolling 1920 1080 (demo_tick 1)) = 1
            \<and> last_frame_time (update demo_strolling 1920 1080 (demo_tick 1)) = 1700000000016"
    by (simp add: demo_strolling_facts)
  from b frame_index_modulo_counter [of demo_stroll_1 "demo_tick 2" 1920 1080 demo_run]
  have b': "current_frame_index (update demo_stroll_1 1920 1080 (demo_tick 2)) = 1
            \<and> 1700000000916 \<le> last_frame_time (updates demo_stroll_1 1920 1080 demo_run)"
    by (simp add: demo_stroll_facts demo_stroll_run)
  from a b a' b' show ?thesis by blast
qed

text \<open>
  The claim C5 as stated fails: the index does not advance exactly once per
  \<open>frame_duration\<close> elapsed. With the 16 ms timer an advance needs 7 ticks, 112 ms: over
  the 63 ticks after the first advance of the example peep, 1008 ms and more than
  \<open>frame_duration * 2\<close>, the index advances 9 times, not 10.
\<close>

theorem frame_index_modulo_counter_counterexample:
  "setup_walking (animator demo_peep) 1920 1080 None None demo_mid_env = Inr demo_strolling
   \<and> is_moving demo_stroll_1
   \<and> length (frames_of demo_stroll_1) = 2
   \<and> frame_duration demo_stroll_1 = 100
   \<and> now (demo_tick 64) - last_frame_time demo_stroll_1 = 1008
   \<and> (now (demo_tick 64) - last_frame_time demo_stroll_1) div frame_duration demo_stroll_1 = 10
   \<and> advances demo_stroll_1 1920 1080 demo_run = 9
   \<and> current_frame_index demo_stroll_1 = 1
   \<and> current_frame_index (updates demo_stroll_1 1920 1080 demo_run) = 0"
  using demo_strolling_ok by (simp add: demo_stroll_facts demo_stroll_run)

text \<open>
  C2 says that the frame index stays below the number of frames of the current direction.
  The code breaks it: the example peep has two frames for direction 0 and one for
  direction 1; its first tick advances the index to 1 and then bounces into direction 1,
  so \<^verbatim>\<open>get_current_frame\<close> indexes a list of length 1 at 1 and \<^verbatim>\<open>DesktopPeep.update\<close>
  ends with an \<^verbatim>\<open>IndexError\<close>.
\<close>

theorem frame_index_out_of_range:
  "DesktopPeep_init demo_runtime [100] (Rows demo_rows) demo_sheet_files 1 demo_peep_env
     = Inr demo_peep
   \<and> DesktopPeep_setup demo_peep 1920 1080 demo_setup_env = Inr demo_walking
   \<and> length (frames_of (update (animator demo_walking) 1920 1080 (demo_tick 1))) = 1
   \<and> current_frame_index (update (animator demo_walking) 1920 1080 (demo_tick 1)) = 1
   \<and> get_current_frame (update (animator demo_walking) 1920 1080 (demo_tick 1))
        = Inl IndexError
   \<and> DesktopPeep_update demo_walking 1920 1080 (demo_tick 1) = Inl IndexError"
  using demo_init_eq demo_setup_eq demo_index_state(2,3) demo_frame_error demo_index_error
  by blast

text \<open>
  C7 says that the fallback peep inverts a velocity component once per boundary crossing
  and on no other tick. The code breaks it on a screen 800 pixels wide: the fallback peep
  that starts at \<open>x = 790\<close> is beyond the right bound \<open>800 - 64\<close> from the start, stays
  beyond it, and inverts \<open>dx\<close> on each of its first two ticks.
\<close>

theorem fallback_flips_without_crossing:
  "DesktopPeep_init demo_runtime [100] Not_found demo_sheet_files 1 demo_peep_env = Inr demo_fallback
   \<and> use_fallback demo_fallback
   \<and> peep_x demo_fallback = 790 \<and> peep_dx demo_fallback = 1
   \<and> DesktopPeep_update demo_fallback 800 600 (demo_tick 1)
        = Inr (fallback_update demo_fallback 800 600)
   \<and> peep_x (fallback_update demo_fallback 800 600) = 791
   \<and> peep_dx (fallback_update demo_fallback 800 600) = - 1
   \<and> peep_x (fallback_update (fallback_update demo_fallback 800 600) 800 600) = 790
   \<and> peep_dx (fallback_update (fallback_update demo_fallback 800 600) 800 600) = 1"
  using demo_fallback_eq demo_fallback_update demo_fallback_facts
  by blast




text \<open>
  C10 says that a peep falls back to the colored square whenever loading the metadata
  fails. The code breaks it for a metadata file that exists but cannot be opened or read:
  \<^verbatim>\<open>load_sprite_info\<close> catches only \<^verbatim>\<open>FileNotFoundError\<close>, so the error leaves
  \<^verbatim>\<open>DesktopPeep.__init__\<close> and no peep is built, neither animated nor fallback. With the
  file missing, or with a sheet that does not load, the same constructor returns the
  fallback peep, a yellow square of 64 pixels.
\<close>

theorem unreadable_metadata_raises:
  "load_sprite_info (SpriteAnimator_init 1) Open_error = Inl OSError
   \<and> DesktopPeep_init demo_runtime [100] Open_error demo_sheet_files 1 demo_peep_env
        = Inl OSError
   \<and> load_sprite_info (SpriteAnimator_init 1) (Rows_then_error demo_rows) = Inl ReaderError
   \<and> DesktopPeep_init demo_runtime [100] (Rows_then_error demo_rows) demo_sheet_files 1
        demo_peep_env = Inl ReaderError
   \<and> DesktopPeep_init demo_runtime [100] Not_found demo_sheet_files 1 demo_peep_env
        = Inr demo_fallback
   \<and> use_fallback demo_fallback
   \<and> item_pixmap (graphics_item demo_fallback)
        = Some \<lparr>pm_width = 64, pm_height = 64, pm_image = Yellow\<rparr>
   \<and> map_sum id use_fallback
        (DesktopPeep_init demo_runtime [100] (Rows demo_rows) (\<lambda>n. None) 1 demo_peep_env)
        = Inr True"
  using demo_unreadable demo_fallback_eq demo_fallback_facts(1) demo_fallback_square
  by blast

end
